theory Spec2Isabelle
  imports Main "HOL-Library.Word" "HOL-Library.Char_ord" "HOL-Library.List_Lexorder"
begin

unbundle bit_operations_syntax

section \<open>xSyn: the sync store behind the xBrowserSync routes\<close>

text \<open>
  The development follows the current \<^verbatim>\<open>main.go\<close> of the repository (three Bolt buckets
  \<^verbatim>\<open>BM\<close>, \<^verbatim>\<open>TS\<close>, \<^verbatim>\<open>VR\<close>; the retry counter in \<^verbatim>\<open>POST /bookmarks\<close>). The repository also
  holds an earlier revision, \<^verbatim>\<open>src/xSyn/main.go\<close>, with two buckets and no retry bound; the
  routes \<^verbatim>\<open>PUT /bookmarks/:id\<close>, \<^verbatim>\<open>GET /bookmarks/:id/lastUpdated\<close> and the function
  \<^verbatim>\<open>createTimestampString\<close> are the same text in both.

  Go strings and byte slices are byte sequences, here \<^typ>\<open>string\<close>. What the Go standard
  library, Bolt and the UUID package do is not code of the repository: the clock, the random
  UUIDs, the name-based UUID hash and the outcome of storage writes are fields of the record
  \<open>world\<close> below, and \<^verbatim>\<open>time.Format\<close>, \<^verbatim>\<open>hex.Encode\<close> and \<^verbatim>\<open>fmt.Sprintf("%x")\<close> are written
  out as the library documents them.
\<close>

subsection \<open>Errors and responses\<close>

text \<open>A Go \<^verbatim>\<open>error\<close> is carried with the text its \<^verbatim>\<open>Error()\<close> method returns
  (\<^verbatim>\<open>errors.New\<close>, \<^verbatim>\<open>fmt.Errorf\<close>).\<close>

datatype error = Errorf string

fun Error :: "error \<Rightarrow> string" where
  "Error (Errorf s) = s"

text \<open>What a handler writes to the \<^verbatim>\<open>gin.Context\<close>: \<^verbatim>\<open>c.JSON(status, gin.H{...})\<close> with the
  object's fields in key order (as \<^verbatim>\<open>encoding/json\<close> renders a map), or \<^verbatim>\<open>c.String(status, body)\<close>.\<close>

datatype response = JSON nat "(string \<times> string) list" | String nat string

text \<open>\<^verbatim>\<open>handleError\<close>: on a non-nil error it writes the 409 response and returns true
  (\<open>Some\<close> of the response written); on nil it writes nothing and returns false (\<open>None\<close>).\<close>

definition handleError :: "string \<Rightarrow> string \<Rightarrow> error option \<Rightarrow> response option" where
  "handleError code message err =
     (case err of
        Some e \<Rightarrow>
          (let message = (if length message = 0 then Error e else message)
           in Some (JSON 409 [(''code'', code), (''message'', message)]))
      | None \<Rightarrow> None)"

subsection \<open>Timestamps\<close>

text \<open>The fields of a \<^verbatim>\<open>time.Time\<close> that \<^verbatim>\<open>Format\<close> reads; \<open>ZoneOffset\<close> is the offset of the
  time's location in seconds east of UTC. \<^verbatim>\<open>time.Now()\<close> is in the server's local zone.\<close>

record Time =
  Year :: nat
  Month :: nat
  Day :: nat
  Hour :: nat
  Minute :: nat
  Second :: nat
  Nanosecond :: nat
  ZoneOffset :: int

definition digit :: "nat \<Rightarrow> char" where
  "digit n = ''0123456789'' ! (n mod 10)"

fun itoa :: "nat \<Rightarrow> string" where
  "itoa n = (if n < 10 then [digit n] else itoa (n div 10) @ [digit n])"

declare itoa.simps [simp del]

text \<open>\<^verbatim>\<open>appendInt(b, x, width)\<close> of package \<^verbatim>\<open>time\<close>: the decimal form of \<open>x\<close>, padded with
  leading zeros to \<open>width\<close>.\<close>

definition appendInt :: "nat \<Rightarrow> nat \<Rightarrow> string" where
  "appendInt x width = replicate (width - length (itoa x)) (CHR ''0'') @ itoa x"

text \<open>The layout element \<^verbatim>\<open>Z07:00\<close>: \<^verbatim>\<open>Z\<close> for offset zero, otherwise sign, hours, colon,
  minutes; Go's integer division truncates towards zero.\<close>

definition appendZone :: "int \<Rightarrow> string" where
  "appendZone offset =
     (if offset = 0 then ''Z''
      else
        (let zone = (if offset < 0 then - ((- offset) div 60) else offset div 60)
         in (if zone < 0 then ''-'' else ''+'')
            @ appendInt (nat \<bar>zone\<bar> div 60) 2 @ '':'' @ appendInt (nat \<bar>zone\<bar> mod 60) 2))"

text \<open>\<^verbatim>\<open>t.Format(time.RFC3339)\<close>, where \<^verbatim>\<open>time.RFC3339 = "2006-01-02T15:04:05Z07:00"\<close>. The
  layout has no fractional-second element, so \<open>Nanosecond\<close> is not read.\<close>

definition Format_RFC3339 :: "Time \<Rightarrow> string" where
  "Format_RFC3339 t =
     appendInt (Year t) 4 @ ''-'' @ appendInt (Month t) 2 @ ''-'' @ appendInt (Day t) 2 @ ''T''
     @ appendInt (Hour t) 2 @ '':'' @ appendInt (Minute t) 2 @ '':'' @ appendInt (Second t) 2
     @ appendZone (ZoneOffset t)"

text \<open>\<^verbatim>\<open>createTimestampString\<close>: \<^verbatim>\<open>time.Now().Format(time.RFC3339)\<close>; the clock reading is the
  argument.\<close>

definition createTimestampString :: "Time \<Rightarrow> string" where
  "createTimestampString now = Format_RFC3339 now"

text \<open>The shape the source's comment asks for (\<^verbatim>\<open>"2016-07-06T12:43:16.866Z"\<close>): ISO-8601, UTC,
  three digits of milliseconds.\<close>

definition is_digit :: "char \<Rightarrow> bool" where
  "is_digit c = (c \<in> set ''0123456789'')"

definition millis_utc_shape :: "string \<Rightarrow> bool" where
  "millis_utc_shape s =
     (length s = 24
      \<and> list_all is_digit (take 4 s) \<and> s ! 4 = CHR ''-''
      \<and> list_all is_digit (take 2 (drop 5 s)) \<and> s ! 7 = CHR ''-''
      \<and> list_all is_digit (take 2 (drop 8 s)) \<and> s ! 10 = CHR ''T''
      \<and> list_all is_digit (take 2 (drop 11 s)) \<and> s ! 13 = CHR '':''
      \<and> list_all is_digit (take 2 (drop 14 s)) \<and> s ! 16 = CHR '':''
      \<and> list_all is_digit (take 2 (drop 17 s)) \<and> s ! 19 = CHR ''.''
      \<and> list_all is_digit (take 3 (drop 20 s)) \<and> s ! 23 = CHR ''Z'')"

text \<open>The instant of the source's comment, read by a server whose local zone is UTC.\<close>

definition comment_instant :: Time where
  "comment_instant =
     \<lparr>Year = 2016, Month = 7, Day = 6, Hour = 12, Minute = 43, Second = 16,
      Nanosecond = 866000000, ZoneOffset = 0\<rparr>"

subsection \<open>The Bolt store\<close>

text \<open>The buckets \<^verbatim>\<open>boltDataBucket = "BM"\<close>, \<^verbatim>\<open>boltTimestampBucket = "TS"\<close> and
  \<^verbatim>\<open>boltVersionBucket = "VR"\<close>, created at start-up.\<close>

datatype bucket_name = BM | TS | VR

type_synonym bucket = "string \<rightharpoonup> string"

text \<open>The database as a transaction sees it: the key/value pairs of each bucket and each
  bucket's sequence counter (a \<^verbatim>\<open>uint64\<close>).\<close>

record db =
  buckets :: "bucket_name \<Rightarrow> bucket"
  sequence :: "bucket_name \<Rightarrow> 64 word"

text \<open>A \<^verbatim>\<open>uuid.UUID\<close> is a \<^verbatim>\<open>[16]byte\<close>: 128 bits, byte 0 the most significant.\<close>

type_synonym UUID = "128 word"

text \<open>What a request meets outside the repository's code: the clock, the process-wide flag
  \<^verbatim>\<open>newSyncsAllowed\<close>, the results of the successive \<^verbatim>\<open>uuid.NewV4()\<close> calls of the request,
  the hash \<^verbatim>\<open>uuid.NewV5\<close>, the error (if any) that \<^verbatim>\<open>Bucket.Put\<close> returns for a key and value
  in a bucket, and the error (if any) of the commit at the end of \<^verbatim>\<open>db.Update\<close>.\<close>

record world =
  now :: Time
  newSyncsAllowed :: bool
  NewV4 :: "nat \<Rightarrow> error + UUID"
  NewV5 :: "UUID \<Rightarrow> string \<Rightarrow> UUID"
  put_error :: "bucket_name \<Rightarrow> string \<Rightarrow> string \<Rightarrow> error option"
  commit_error :: "error option"

text \<open>\<^verbatim>\<open>Bucket.Get\<close>: nil (\<open>None\<close>) when the key is absent; a key stored with a zero-length
  value is present.\<close>

definition Get :: "bucket_name \<Rightarrow> string \<Rightarrow> db \<Rightarrow> string option" where
  "Get b key d = buckets d b key"

text \<open>\<^verbatim>\<open>Bucket.Put\<close> inside a writable transaction: the error, and the working state.\<close>

definition Put :: "world \<Rightarrow> bucket_name \<Rightarrow> string \<Rightarrow> string \<Rightarrow> db \<Rightarrow> error option \<times> db" where
  "Put w b key val d =
     (case put_error w b key val of
        Some e \<Rightarrow> (Some e, d)
      | None \<Rightarrow> (None, d\<lparr>buckets := (buckets d)(b := (buckets d b)(key \<mapsto> val))\<rparr>))"

text \<open>\<^verbatim>\<open>Bucket.NextSequence\<close>: increments the bucket's counter and returns it.\<close>

definition NextSequence :: "bucket_name \<Rightarrow> db \<Rightarrow> 64 word \<times> db" where
  "NextSequence b d =
     (let n = sequence d b + 1 in (n, d\<lparr>sequence := (sequence d)(b := n)\<rparr>))"

text \<open>\<^verbatim>\<open>db.Update(fn)\<close>: \<open>fn\<close> runs on a working copy of the store; its result carries the
  error it returns and the variables of the handler it assigns. When \<open>fn\<close> returns an error
  the transaction is rolled back, and so it is when the commit fails; only otherwise does
  the working copy become the store. The database stays open while requests are served, so
  beginning a transaction does not fail.\<close>

definition db_Update ::
  "world \<Rightarrow> (db \<Rightarrow> (error option \<times> 'v) \<times> db) \<Rightarrow> db \<Rightarrow> (error option \<times> 'v) \<times> db" where
  "db_Update w fn d =
     (case fn d of
        ((Some e, v), _) \<Rightarrow> ((Some e, v), d)
      | ((None, v), d') \<Rightarrow>
          (case commit_error w of
             Some e \<Rightarrow> ((Some e, v), d)
           | None \<Rightarrow> ((None, v), d')))"

text \<open>\<^verbatim>\<open>db.View(fn)\<close>: \<open>fn\<close> reads a snapshot of the store; the error of \<^verbatim>\<open>db.View\<close> is
  the one \<open>fn\<close> returns.\<close>

definition db_View :: "(db \<Rightarrow> 'r) \<Rightarrow> db \<Rightarrow> 'r" where
  "db_View fn d = fn d"

subsection \<open>Hexadecimal text\<close>

definition hextable :: string where
  "hextable = ''0123456789abcdef''"

text \<open>\<^verbatim>\<open>fmt.Sprintf("%x", seqID)\<close> for a \<^verbatim>\<open>uint64\<close>: lower-case hexadecimal, no leading zeros.\<close>

fun hex_nat :: "nat \<Rightarrow> string" where
  "hex_nat n = (if n < 16 then [hextable ! n] else hex_nat (n div 16) @ [hextable ! (n mod 16)])"

declare hex_nat.simps [simp del]

definition Sprintf_x :: "64 word \<Rightarrow> string" where
  "Sprintf_x seqID = hex_nat (unat seqID)"

text \<open>The slice \<^verbatim>\<open>u[0:16]\<close> of a UUID: its sixteen bytes.\<close>

definition uuid_bytes :: "UUID \<Rightarrow> 8 word list" where
  "uuid_bytes u = map (\<lambda>i. ucast (drop_bit (8 * (15 - i)) u)) [0..<16]"

text \<open>\<^verbatim>\<open>hex.Encode(dst, src)\<close> writes two characters for each byte of \<open>src\<close> at the front of
  \<open>dst\<close> and leaves the rest of \<open>dst\<close> as it was.\<close>

definition hex_byte :: "8 word \<Rightarrow> string" where
  "hex_byte v = [hextable ! unat (drop_bit 4 v), hextable ! unat (v AND 0x0f)]"

definition hex_Encode :: "string \<Rightarrow> 8 word list \<Rightarrow> string" where
  "hex_Encode dst src = concat (map hex_byte src) @ drop (2 * length src) dst"

subsection \<open>POST /bookmarks: create a sync\<close>

record CreateBookmarkData =
  ClientVersion :: string

record RequestData =
  EncodedBookmarks :: string

text \<open>The loop of the transaction. \<open>buf\<close> is the 32-byte buffer, \<open>uniqueIDRetryCount\<close> the
  counter; the draw of this iteration is the \<open>uniqueIDRetryCount\<close>-th call of \<^verbatim>\<open>uuid.NewV4\<close>
  in the request. The result is the error returned from inside the loop, or the buffer at
  the \<^verbatim>\<open>break\<close>.\<close>

function find_unique :: "world \<Rightarrow> bucket \<Rightarrow> 64 word \<Rightarrow> string \<Rightarrow> nat \<Rightarrow> error + string" where
  "find_unique w bkData seqID buf uniqueIDRetryCount =
     (case NewV4 w uniqueIDRetryCount of
        Inl err \<Rightarrow> Inl err
      | Inr uuid1 \<Rightarrow>
          (let uuid2 = NewV5 w uuid1 (Sprintf_x seqID);
               buf = hex_Encode buf (uuid_bytes uuid2)
           in if bkData buf = None then Inr buf
              else if uniqueIDRetryCount + 1 > 8 then Inl (Errorf ''too many UUID collisions'')
              else find_unique w bkData seqID buf (uniqueIDRetryCount + 1)))"
  by pat_completeness auto
termination
  by (relation "measure (\<lambda>(w, bkData, seqID, buf, n). 9 - n)") auto

declare find_unique.simps [simp del]

text \<open>The function passed to \<^verbatim>\<open>db.Update\<close>. The second component of its result is the
  handler's variable \<^verbatim>\<open>newID\<close>, \<^verbatim>\<open>"invalid"\<close> until the loop is left by \<^verbatim>\<open>break\<close>.\<close>

definition create_tx ::
  "world \<Rightarrow> CreateBookmarkData \<Rightarrow> string \<Rightarrow> db \<Rightarrow> (error option \<times> string) \<times> db" where
  "create_tx w bookmarkData imprintTime d =
     (let (seqID, d) = NextSequence BM d;
          buf = replicate 32 (CHR 0x00)
      in case find_unique w (buckets d BM) seqID buf 0 of
           Inl err \<Rightarrow> ((Some err, ''invalid''), d)
         | Inr buf \<Rightarrow>
             (let newID = buf
              in case Put w BM buf [] d of
                   (Some err, d) \<Rightarrow> ((Some err, newID), d)
                 | (None, d) \<Rightarrow>
                     (case Put w VR buf (ClientVersion bookmarkData) d of
                        (Some err, d) \<Rightarrow> ((Some err, newID), d)
                      | (None, d) \<Rightarrow>
                          (case Put w TS buf imprintTime d of
                             (err, d) \<Rightarrow> ((err, newID), d)))))"

text \<open>The handler. \<open>body\<close> is what \<^verbatim>\<open>c.ShouldBindJSON\<close> gives: an error or the bound struct.
  A handler that returns without writing an answer leaves gin's empty 200 answer, here
  \<open>String 200 []\<close>; after \<^verbatim>\<open>handleError\<close> on a non-nil error that does not happen.\<close>

definition post_bookmarks :: "world \<Rightarrow> error + CreateBookmarkData \<Rightarrow> db \<Rightarrow> response \<times> db" where
  "post_bookmarks w body d =
     (if \<not> newSyncsAllowed w then
        (JSON 409 [(''code'', ''NotAllowed''), (''message'', ''Not accepting new sync users'')], d)
      else
        (case body of
           Inl err \<Rightarrow>
             (case handleError ''MissingParameter'' ''/bookmarks POST missing'' (Some err) of
                Some r \<Rightarrow> (r, d)
              | None \<Rightarrow> (String 200 [], d))
         | Inr bookmarkData \<Rightarrow>
             (let imprintTime = createTimestampString (now w);
                  ((err, newID), d) = db_Update w (create_tx w bookmarkData imprintTime) d
              in case handleError ''InternalError'' [] err of
                   Some r \<Rightarrow> (r, d)
                 | None \<Rightarrow>
                     (JSON 200 [(''id'', newID), (''lastUpdated'', imprintTime),
                                (''version'', ClientVersion bookmarkData)], d))))"

subsection \<open>GET /bookmarks/:id\<close>

text \<open>The function passed to \<^verbatim>\<open>db.View\<close>: the error, or the three values copied out.\<close>

definition get_tx :: "string \<Rightarrow> db \<Rightarrow> error + (string \<times> string \<times> string)" where
  "get_tx markID d =
     (let data = Get BM markID d; ts = Get TS markID d; ver = Get VR markID d
      in case data of
           None \<Rightarrow> Inl (Errorf ''data not found for key'')
         | Some dataResult \<Rightarrow>
             (case ts of
                None \<Rightarrow> Inl (Errorf ''timestamp not found for key'')
              | Some tsResult \<Rightarrow>
                  (case ver of
                     None \<Rightarrow> Inl (Errorf ''version not found for key'')
                   | Some verResult \<Rightarrow> Inr (dataResult, tsResult, verResult))))"

definition get_bookmarks :: "string \<Rightarrow> db \<Rightarrow> response" where
  "get_bookmarks markID d =
     (case db_View (get_tx markID) d of
        Inl err \<Rightarrow>
          (case handleError ''InvalidArgument'' ''Invalid ID'' (Some err) of
             Some r \<Rightarrow> r
           | None \<Rightarrow> String 200 [])
      | Inr (dataResult, tsResult, verResult) \<Rightarrow>
          JSON 200 [(''bookmarks'', dataResult), (''lastUpdated'', tsResult),
                    (''version'', verResult)])"

subsection \<open>PUT /bookmarks/:id\<close>

definition put_tx :: "world \<Rightarrow> string \<Rightarrow> RequestData \<Rightarrow> string \<Rightarrow> db \<Rightarrow> (error option \<times> unit) \<times> db" where
  "put_tx w markID bookmarkData imprintTime d =
     (case Put w BM markID (EncodedBookmarks bookmarkData) d of
        (Some err, d) \<Rightarrow> ((Some err, ()), d)
      | (None, d) \<Rightarrow>
          (case Put w TS markID imprintTime d of
             (err, d) \<Rightarrow> ((err, ()), d)))"

definition put_bookmarks :: "world \<Rightarrow> string \<Rightarrow> error + RequestData \<Rightarrow> db \<Rightarrow> response \<times> db" where
  "put_bookmarks w markID body d =
     (case body of
        Inl err \<Rightarrow>
          (case handleError ''MissingParameter'' ''No bookmarks provided'' (Some err) of
             Some r \<Rightarrow> (r, d)
           | None \<Rightarrow> (String 200 [], d))
      | Inr bookmarkData \<Rightarrow>
          (let imprintTime = createTimestampString (now w);
               ((err, _), d) = db_Update w (put_tx w markID bookmarkData imprintTime) d
           in case handleError ''InternalError'' [] err of
                Some r \<Rightarrow> (r, d)
              | None \<Rightarrow> (JSON 200 [(''lastUpdated'', imprintTime)], d)))"

subsection \<open>GET /bookmarks/:id/lastUpdated and GET /bookmarks/:id/version\<close>

text \<open>\<^verbatim>\<open>string(b)\<close> of a byte slice: the empty string for nil.\<close>

definition string_of :: "string option \<Rightarrow> string" where
  "string_of b = (case b of None \<Rightarrow> [] | Some s \<Rightarrow> s)"

text \<open>The functions passed to \<^verbatim>\<open>db.View\<close> in these two handlers always return nil, so the
  \<^verbatim>\<open>handleError\<close> call after them writes nothing.\<close>

definition get_lastUpdated :: "string \<Rightarrow> db \<Rightarrow> response" where
  "get_lastUpdated markID d =
     (let timestampString = db_View (\<lambda>d. string_of (Get TS markID d)) d
      in if length timestampString > 0 then JSON 200 [(''lastUpdated'', timestampString)]
         else String 200 ''{}'')"

definition get_version :: "string \<Rightarrow> db \<Rightarrow> response" where
  "get_version markID d =
     (let versionString = db_View (\<lambda>d. string_of (Get VR markID d)) d
      in if length versionString > 0 then JSON 200 [(''version'', versionString)]
         else String 200 ''{}'')"

subsection \<open>Requests in sequence\<close>

text \<open>Every handler touches the store through one transaction, and Bolt runs write
  transactions one at a time, so the store passes through the handlers' transactions in
  some order; requests served together appear here in the order their transactions ran.\<close>

datatype request =
    PostBookmarks "error + CreateBookmarkData"
  | GetBookmarks string
  | PutBookmarks string "error + RequestData"
  | GetLastUpdated string
  | GetVersion string

fun handle :: "world \<Rightarrow> request \<Rightarrow> db \<Rightarrow> response \<times> db" where
  "handle w (PostBookmarks body) d = post_bookmarks w body d"
| "handle w (GetBookmarks markID) d = (get_bookmarks markID d, d)"
| "handle w (PutBookmarks markID body) d = put_bookmarks w markID body d"
| "handle w (GetLastUpdated markID) d = (get_lastUpdated markID d, d)"
| "handle w (GetVersion markID) d = (get_version markID d, d)"

fun serve :: "(world \<times> request) list \<Rightarrow> db \<Rightarrow> response list \<times> db" where
  "serve [] d = ([], d)"
| "serve ((w, r) # rs) d =
     (let (resp, d) = handle w r d; (resps, d) = serve rs d in (resp # resps, d))"

text \<open>The identifier a response hands out: the \<^verbatim>\<open>id\<close> field of a 200 answer, which only
  \<^verbatim>\<open>POST /bookmarks\<close> writes.\<close>

fun issued_id :: "response \<Rightarrow> string option" where
  "issued_id (JSON status ((k, v) # rest)) =
     (if status = 200 \<and> k = ''id'' then Some v else None)"
| "issued_id _ = None"

definition issued_ids :: "response list \<Rightarrow> string list" where
  "issued_ids resps = List.map_filter issued_id resps"

text \<open>The store after start-up: the three buckets exist and are empty.\<close>

definition empty_db :: db where
  "empty_db = \<lparr>buckets = (\<lambda>_. Map.empty), sequence = (\<lambda>_. 0)\<rparr>"

text \<open>The identifier a request writes under its own name: the \<^verbatim>\<open>:id\<close> of a
  \<^verbatim>\<open>PUT /bookmarks/:id\<close>.\<close>

fun put_target :: "request \<Rightarrow> string option" where
  "put_target (PutBookmarks markID body) = Some markID"
| "put_target _ = None"

definition put_targets :: "(world \<times> request) list \<Rightarrow> string list" where
  "put_targets rs = List.map_filter (\<lambda>(w, r). put_target r) rs"

text \<open>A world for closed instances: the clock reads the instant of the source's comment,
  new syncs are accepted, every random UUID is zero, the hash returns its first argument, and
  storage never fails. Instances that need collisions or failures update single fields.\<close>

definition example_world :: world where
  "example_world =
     \<lparr>now = comment_instant, newSyncsAllowed = True,
      NewV4 = (\<lambda>n. Inr 0), NewV5 = (\<lambda>uuid1 name. uuid1),
      put_error = (\<lambda>b key val. None), commit_error = None\<rparr>"

text \<open>The identifier the loop derives from a random UUID: the hexadecimal text of the
  hashed UUID, written over the whole of a fresh buffer.\<close>

definition candidate :: "world \<Rightarrow> 64 word \<Rightarrow> UUID \<Rightarrow> string" where
  "candidate w seqID uuid1 =
     hex_Encode (replicate 32 (CHR 0x00)) (uuid_bytes (NewV5 w uuid1 (Sprintf_x seqID)))"

text \<open>A world with a poor random source: the first \<open>k\<close> UUIDs drawn are zero, the later
  ones are one.\<close>

definition stuck_world :: "nat \<Rightarrow> world" where
  "stuck_world k = example_world\<lparr>NewV4 := (\<lambda>n. Inr (if n < k then 0 else 1))\<rparr>"

text \<open>The store after one sync was created in \<open>example_world\<close>; its identifier is 32 zeros.\<close>

definition first_sync_db :: db where
  "first_sync_db = snd (post_bookmarks example_world (Inr \<lparr>ClientVersion = ''1.0.0''\<rparr>) empty_db)"

section \<open>Timestamps\<close>

lemma digit_is_digit: "digit n \<in> set ''0123456789''"
proof -
  have "n mod 10 < length ''0123456789''" by simp
  then show ?thesis unfolding digit_def by (rule nth_mem)
qed

lemma itoa_digits: "set (itoa n) \<subseteq> set ''0123456789''"
proof (induction n rule: itoa.induct)
  case (1 n)
  show ?case
  proof (cases "n < 10")
    case True
    then show ?thesis using digit_is_digit [of n] by (subst itoa.simps) simp
  next
    case False
    then show ?thesis using 1 digit_is_digit [of n] by (subst itoa.simps) simp
  qed
qed

lemma appendInt_digits: "set (appendInt x width) \<subseteq> set ''0123456789''"
  using itoa_digits [of x] unfolding appendInt_def by (auto simp: set_replicate_conv_if)

lemma no_dot_appendInt: "CHR ''.'' \<notin> set (appendInt x width)"
  using appendInt_digits [of x width] by auto

lemma no_dot_appendZone: "CHR ''.'' \<notin> set (appendZone z)"
  unfolding appendZone_def Let_def by (simp add: no_dot_appendInt)

lemma no_dot_timestamp: "CHR ''.'' \<notin> set (createTimestampString t)"
  unfolding createTimestampString_def Format_RFC3339_def
  by (simp add: no_dot_appendInt no_dot_appendZone)

lemma shape_has_dot: "millis_utc_shape s \<Longrightarrow> CHR ''.'' \<in> set s"
proof -
  assume a: "millis_utc_shape s"
  then have "length s = 24" and "s ! 19 = CHR ''.''" by (simp_all add: millis_utc_shape_def)
  then show ?thesis using nth_mem [of 19 s] by auto
qed

text \<open>
  C4. The claim: every \<^verbatim>\<open>lastUpdated\<close> value has the shape \<^verbatim>\<open>2016-07-06T12:43:16.866Z\<close>
  (UTC, milliseconds), as the comment above \<^verbatim>\<open>createTimestampString\<close> asks. The code formats
  with \<^verbatim>\<open>time.RFC3339\<close>, which has whole seconds only: at the instant of the comment it gives
  \<^verbatim>\<open>2016-07-06T12:43:16Z\<close>, and no clock reading gives a string of the claimed shape.
\<close>

theorem createTimestampString_has_no_milliseconds:
  "createTimestampString comment_instant = ''2016-07-06T12:43:16Z''
   \<and> \<not> millis_utc_shape (createTimestampString t)"
proof
  show "createTimestampString comment_instant = ''2016-07-06T12:43:16Z''"
    by (simp add: createTimestampString_def Format_RFC3339_def comment_instant_def
        appendInt_def appendZone_def itoa.simps digit_def)
  show "\<not> millis_utc_shape (createTimestampString t)"
    using shape_has_dot no_dot_timestamp by blast
qed

section \<open>The create transaction\<close>

lemma length_hex_bytes: "length (concat (map hex_byte src)) = 2 * length src"
  by (induction src) (simp_all add: hex_byte_def)

lemma length_uuid_bytes: "length (uuid_bytes u) = 16"
  by (simp add: uuid_bytes_def)

lemma length_hex_Encode_uuid:
  "length buf = 32 \<Longrightarrow> length (hex_Encode buf (uuid_bytes u)) = 32"
  by (simp add: hex_Encode_def length_hex_bytes length_uuid_bytes)

lemma hex_Encode_uuid_overwrites:
  "length buf = 32 \<Longrightarrow> hex_Encode buf (uuid_bytes u) = concat (map hex_byte (uuid_bytes u))"
  by (simp add: hex_Encode_def length_uuid_bytes)

lemma find_unique_free:
  "find_unique w bkData seqID buf n = Inr b \<Longrightarrow> bkData b = None"
proof (induction w bkData seqID buf n rule: find_unique.induct)
  case (1 w bkData seqID buf n)
  from "1.prems" show ?case
    by (subst (asm) find_unique.simps)
       (auto simp: Let_def split: sum.splits if_splits intro: "1.IH")
qed

lemma find_unique_length:
  "find_unique w bkData seqID buf n = Inr b \<Longrightarrow> length buf = 32 \<Longrightarrow> length b = 32"
proof (induction w bkData seqID buf n rule: find_unique.induct)
  case (1 w bkData seqID buf n)
  from "1.prems" show ?case
    by (subst (asm) find_unique.simps)
       (auto simp: Let_def length_hex_Encode_uuid split: sum.splits if_splits intro: "1.IH")
qed

lemma db_Update_cases:
  assumes "db_Update w fn d = ((err, v), d')"
  shows "(err = None \<and> commit_error w = None \<and> fn d = ((None, v), d'))
         \<or> ((\<exists>e. err = Some e) \<and> d' = d)"
  using assms unfolding db_Update_def
  by (auto split: prod.splits option.splits)

lemma create_tx_ok:
  assumes "create_tx w bookmarkData imprintTime d = ((None, newID), d')"
  shows "buckets d BM newID = None \<and> length newID = 32
         \<and> buckets d' = (buckets d)
              (BM := (buckets d BM)(newID \<mapsto> []),
               VR := (buckets d VR)(newID \<mapsto> ClientVersion bookmarkData),
               TS := (buckets d TS)(newID \<mapsto> imprintTime))
         \<and> sequence d' = (sequence d)(BM := sequence d BM + 1)"
proof -
  obtain seqID d1 where ns: "NextSequence BM d = (seqID, d1)"
    by (metis prod.exhaust)
  then have b1: "buckets d1 = buckets d"
    and s1: "sequence d1 = (sequence d)(BM := sequence d BM + 1)"
    by (auto simp: NextSequence_def Let_def)
  obtain buf where fu: "find_unique w (buckets d1 BM) seqID (replicate 32 (CHR 0x00)) 0 = Inr buf"
    using assms ns unfolding create_tx_def Let_def
    by (auto split: sum.splits)
  have free: "buckets d BM buf = None" using find_unique_free [OF fu] b1 by simp
  have len: "length buf = 32" using find_unique_length [OF fu] by simp
  from assms ns fu have "newID = buf
      \<and> d' = d1\<lparr>buckets := (buckets d1)
              (BM := (buckets d1 BM)(buf \<mapsto> []),
               VR := (buckets d1 VR)(buf \<mapsto> ClientVersion bookmarkData),
               TS := (buckets d1 TS)(buf \<mapsto> imprintTime))\<rparr>"
    unfolding create_tx_def Let_def Put_def
    by (auto split: option.splits)
  then show ?thesis using free len s1 b1 by simp
qed

lemma post_bookmarks_cases:
  assumes "post_bookmarks w body d = (r, d')"
  shows "((\<exists>code msg. r = JSON 409 [(''code'', code), (''message'', msg)]) \<and> d' = d)
       \<or> (\<exists>newID bookmarkData.
            body = Inr bookmarkData \<and> newSyncsAllowed w
            \<and> r = JSON 200 [(''id'', newID),
                             (''lastUpdated'', createTimestampString (now w)),
                             (''version'', ClientVersion bookmarkData)]
            \<and> buckets d BM newID = None \<and> length newID = 32
            \<and> buckets d' = (buckets d)
                 (BM := (buckets d BM)(newID \<mapsto> []),
                  VR := (buckets d VR)(newID \<mapsto> ClientVersion bookmarkData),
                  TS := (buckets d TS)(newID \<mapsto> createTimestampString (now w)))
            \<and> sequence d' = (sequence d)(BM := sequence d BM + 1))"
proof (cases "newSyncsAllowed w")
  case False
  then show ?thesis using assms by (auto simp: post_bookmarks_def)
next
  case allowed: True
  show ?thesis
  proof (cases body)
    case (Inl err)
    then show ?thesis using assms allowed
      by (auto simp: post_bookmarks_def handleError_def Let_def)
  next
    case (Inr bookmarkData)
    obtain err newID d1 where
      upd: "db_Update w (create_tx w bookmarkData (createTimestampString (now w))) d
              = ((err, newID), d1)"
      by (metis prod.exhaust)
    from db_Update_cases [OF upd] show ?thesis
    proof
      assume ok: "err = None \<and> commit_error w = None
        \<and> create_tx w bookmarkData (createTimestampString (now w)) d = ((None, newID), d1)"
      then have tx: "create_tx w bookmarkData (createTimestampString (now w)) d = ((None, newID), d1)"
        by simp
      have "r = JSON 200 [(''id'', newID), (''lastUpdated'', createTimestampString (now w)),
                (''version'', ClientVersion bookmarkData)]" and "d' = d1"
        using assms allowed Inr upd ok
        by (simp_all add: post_bookmarks_def Let_def handleError_def)
      then show ?thesis using create_tx_ok [OF tx] Inr allowed by blast
    next
      assume bad: "(\<exists>e. err = Some e) \<and> d1 = d"
      then show ?thesis using assms allowed Inr upd
        by (auto simp: post_bookmarks_def Let_def handleError_def)
    qed
  qed
qed

section \<open>Closed instances and the update transaction\<close>

lemma upt_16: "[0..<16] = [0,1,2,3,4,5,6,7,8,9,10,11,12,13,14,15]"
  by (simp add: upt_conv_Cons)

lemma hex_uuid_0: "concat (map hex_byte (uuid_bytes 0)) = ''00000000000000000000000000000000''"
  by (simp add: uuid_bytes_def hex_byte_def hextable_def upt_16)

lemma hex_uuid_1: "concat (map hex_byte (uuid_bytes 1)) = ''00000000000000000000000000000001''"
  by (simp add: uuid_bytes_def hex_byte_def hextable_def upt_16)

lemma example_timestamp: "createTimestampString comment_instant = ''2016-07-06T12:43:16Z''"
  by (simp add: createTimestampString_def Format_RFC3339_def comment_instant_def
      appendInt_def appendZone_def itoa.simps digit_def)

lemmas eval_simps = post_bookmarks_def put_bookmarks_def get_bookmarks_def get_lastUpdated_def
  get_version_def db_Update_def db_View_def create_tx_def put_tx_def get_tx_def
  NextSequence_def Put_def Get_def handleError_def string_of_def
  find_unique.simps hex_Encode_def length_uuid_bytes hex_uuid_0 hex_uuid_1
  example_timestamp example_world_def empty_db_def Let_def

lemma put_bookmarks_cases:
  assumes "put_bookmarks w markID body d = (r, d')"
  shows "((\<exists>code msg. r = JSON 409 [(''code'', code), (''message'', msg)]) \<and> d' = d)
       \<or> (\<exists>bookmarkData.
            body = Inr bookmarkData
            \<and> r = JSON 200 [(''lastUpdated'', createTimestampString (now w))]
            \<and> buckets d' = (buckets d)
                 (BM := (buckets d BM)(markID \<mapsto> EncodedBookmarks bookmarkData),
                  TS := (buckets d TS)(markID \<mapsto> createTimestampString (now w)))
            \<and> sequence d' = sequence d)"
proof (cases body)
  case (Inl err)
  then show ?thesis using assms by (auto simp: put_bookmarks_def handleError_def)
next
  case (Inr bookmarkData)
  obtain err u d1 where
    upd: "db_Update w (put_tx w markID bookmarkData (createTimestampString (now w))) d
            = ((err, u), d1)"
    by (metis prod.exhaust)
  from db_Update_cases [OF upd] show ?thesis
  proof
    assume ok: "err = None \<and> commit_error w = None
      \<and> put_tx w markID bookmarkData (createTimestampString (now w)) d = ((None, u), d1)"
    then have "buckets d1 = (buckets d)
                 (BM := (buckets d BM)(markID \<mapsto> EncodedBookmarks bookmarkData),
                  TS := (buckets d TS)(markID \<mapsto> createTimestampString (now w)))
               \<and> sequence d1 = sequence d"
      unfolding put_tx_def Put_def by (auto split: option.splits)
    moreover have "r = JSON 200 [(''lastUpdated'', createTimestampString (now w))]" and "d' = d1"
      using assms Inr upd ok by (simp_all add: put_bookmarks_def Let_def handleError_def)
    ultimately show ?thesis using Inr by blast
  next
    assume bad: "(\<exists>e. err = Some e) \<and> d1 = d"
    then show ?thesis using assms Inr upd
      by (auto simp: put_bookmarks_def Let_def handleError_def)
  qed
qed

lemma put_bookmarks_ok:
  assumes "put_error w BM markID (EncodedBookmarks bookmarkData) = None"
    and "put_error w TS markID (createTimestampString (now w)) = None"
    and "commit_error w = None"
  shows "fst (put_bookmarks w markID (Inr bookmarkData) d)
           = JSON 200 [(''lastUpdated'', createTimestampString (now w))]"
  using assms
  by (simp add: put_bookmarks_def db_Update_def put_tx_def Put_def handleError_def Let_def)

section \<open>The claims about single requests\<close>

text \<open>
  C2. Creation and update are all-or-nothing. \<^verbatim>\<open>POST /bookmarks\<close> either answers 409 and
  leaves the store as it was, or answers 200 with an identifier under which payload (empty),
  timestamp and client version are all stored. \<^verbatim>\<open>PUT /bookmarks/:id\<close> either answers 409 and
  leaves the store as it was, or answers 200 with payload and timestamp both stored. A reader
  sees the store only before or after \<^verbatim>\<open>db.Update\<close>, never the working copy of the transaction.
\<close>

theorem create_and_update_all_or_nothing:
  "((\<exists>code msg. post_bookmarks w body d
        = (JSON 409 [(''code'', code), (''message'', msg)], d))
    \<or> (\<exists>newID t v d'. post_bookmarks w body d
        = (JSON 200 [(''id'', newID), (''lastUpdated'', t), (''version'', v)], d')
        \<and> Get BM newID d' = Some [] \<and> Get TS newID d' = Some t \<and> Get VR newID d' = Some v))
   \<and> ((\<exists>code msg. put_bookmarks w markID body' d
        = (JSON 409 [(''code'', code), (''message'', msg)], d))
    \<or> (\<exists>bookmarkData t d'. body' = Inr bookmarkData \<and> put_bookmarks w markID body' d
        = (JSON 200 [(''lastUpdated'', t)], d')
        \<and> Get BM markID d' = Some (EncodedBookmarks bookmarkData) \<and> Get TS markID d' = Some t))"
proof
  obtain r d' where p: "post_bookmarks w body d = (r, d')" by (metis prod.exhaust)
  from post_bookmarks_cases [OF p] p
  show "(\<exists>code msg. post_bookmarks w body d
        = (JSON 409 [(''code'', code), (''message'', msg)], d))
    \<or> (\<exists>newID t v d'. post_bookmarks w body d
        = (JSON 200 [(''id'', newID), (''lastUpdated'', t), (''version'', v)], d')
        \<and> Get BM newID d' = Some [] \<and> Get TS newID d' = Some t \<and> Get VR newID d' = Some v)"
    by (auto simp: Get_def)
next
  obtain r d' where p: "put_bookmarks w markID body' d = (r, d')" by (metis prod.exhaust)
  from put_bookmarks_cases [OF p] p
  show "(\<exists>code msg. put_bookmarks w markID body' d
        = (JSON 409 [(''code'', code), (''message'', msg)], d))
    \<or> (\<exists>bookmarkData t d'. body' = Inr bookmarkData \<and> put_bookmarks w markID body' d
        = (JSON 200 [(''lastUpdated'', t)], d')
        \<and> Get BM markID d' = Some (EncodedBookmarks bookmarkData) \<and> Get TS markID d' = Some t)"
    by (auto simp: Get_def)
qed

text \<open>An instance: when the timestamp write fails after the payload write, the transaction
  function leaves the payload in its working copy, and \<^verbatim>\<open>db.Update\<close> rolls it back.\<close>

theorem create_and_update_all_or_nothing_witness:
  "fst (put_tx (example_world\<lparr>put_error := (\<lambda>b key val. if b = TS then Some (Errorf ''disk full'') else None)\<rparr>)
         ''0123'' \<lparr>EncodedBookmarks = ''ENCBLOB''\<rparr> ''2016-07-06T12:43:16Z'' empty_db)
     = (Some (Errorf ''disk full''), ())
   \<and> Get BM ''0123'' (snd (put_tx (example_world\<lparr>put_error := (\<lambda>b key val. if b = TS then Some (Errorf ''disk full'') else None)\<rparr>)
         ''0123'' \<lparr>EncodedBookmarks = ''ENCBLOB''\<rparr> ''2016-07-06T12:43:16Z'' empty_db)) = Some ''ENCBLOB''
   \<and> put_bookmarks (example_world\<lparr>put_error := (\<lambda>b key val. if b = TS then Some (Errorf ''disk full'') else None)\<rparr>)
         ''0123'' (Inr \<lparr>EncodedBookmarks = ''ENCBLOB''\<rparr>) empty_db
     = (JSON 409 [(''code'', ''InternalError''), (''message'', ''disk full'')], empty_db)
   \<and> fst (put_bookmarks example_world ''0123'' (Inr \<lparr>EncodedBookmarks = ''ENCBLOB''\<rparr>) empty_db)
     = JSON 200 [(''lastUpdated'', ''2016-07-06T12:43:16Z'')]"
  using create_and_update_all_or_nothing
    [of "example_world\<lparr>put_error := (\<lambda>b key val. if b = TS then Some (Errorf ''disk full'') else None)\<rparr>"
        "Inr \<lparr>ClientVersion = []\<rparr>" empty_db "''0123''" "Inr \<lparr>EncodedBookmarks = ''ENCBLOB''\<rparr>"]
  by (simp add: eval_simps)

text \<open>
  C5. For every client-version string, the empty one included, a successful
  \<^verbatim>\<open>POST /bookmarks\<close> stores that string as the new record's client version and answers with
  the new identifier, the creation timestamp and that version.
\<close>

theorem create_records_client_version:
  assumes "post_bookmarks w (Inr bookmarkData) d = (JSON 200 answer, d')"
  shows "\<exists>newID. answer = [(''id'', newID), (''lastUpdated'', createTimestampString (now w)),
                           (''version'', ClientVersion bookmarkData)]
           \<and> Get VR newID d' = Some (ClientVersion bookmarkData)
           \<and> Get TS newID d' = Some (createTimestampString (now w))"
  using post_bookmarks_cases [OF assms] by (auto simp: Get_def)

theorem create_records_client_version_witness:
  "fst (post_bookmarks example_world (Inr \<lparr>ClientVersion = []\<rparr>) empty_db)
     = JSON 200 [(''id'', ''00000000000000000000000000000000''),
                 (''lastUpdated'', ''2016-07-06T12:43:16Z''), (''version'', [])]
   \<and> Get VR ''00000000000000000000000000000000''
        (snd (post_bookmarks example_world (Inr \<lparr>ClientVersion = []\<rparr>) empty_db)) = Some []
   \<and> fst (post_bookmarks example_world (Inr \<lparr>ClientVersion = ''1.0.0''\<rparr>) empty_db)
     = JSON 200 [(''id'', ''00000000000000000000000000000000''),
                 (''lastUpdated'', ''2016-07-06T12:43:16Z''), (''version'', ''1.0.0'')]
   \<and> Get VR ''00000000000000000000000000000000''
        (snd (post_bookmarks example_world (Inr \<lparr>ClientVersion = ''1.0.0''\<rparr>) empty_db)) = Some ''1.0.0''"
proof -
  have e0: "fst (post_bookmarks example_world (Inr \<lparr>ClientVersion = []\<rparr>) empty_db)
     = JSON 200 [(''id'', ''00000000000000000000000000000000''),
                 (''lastUpdated'', ''2016-07-06T12:43:16Z''), (''version'', [])]"
    by (simp add: eval_simps)
  have e1: "fst (post_bookmarks example_world (Inr \<lparr>ClientVersion = ''1.0.0''\<rparr>) empty_db)
     = JSON 200 [(''id'', ''00000000000000000000000000000000''),
                 (''lastUpdated'', ''2016-07-06T12:43:16Z''), (''version'', ''1.0.0'')]"
    by (simp add: eval_simps)
  from e0 have p0: "post_bookmarks example_world (Inr \<lparr>ClientVersion = []\<rparr>) empty_db
     = (JSON 200 [(''id'', ''00000000000000000000000000000000''),
                 (''lastUpdated'', ''2016-07-06T12:43:16Z''), (''version'', [])],
        snd (post_bookmarks example_world (Inr \<lparr>ClientVersion = []\<rparr>) empty_db))"
    by (metis prod.collapse)
  from e1 have p1: "post_bookmarks example_world (Inr \<lparr>ClientVersion = ''1.0.0''\<rparr>) empty_db
     = (JSON 200 [(''id'', ''00000000000000000000000000000000''),
                 (''lastUpdated'', ''2016-07-06T12:43:16Z''), (''version'', ''1.0.0'')],
        snd (post_bookmarks example_world (Inr \<lparr>ClientVersion = ''1.0.0''\<rparr>) empty_db))"
    by (metis prod.collapse)
  show ?thesis
    using e0 e1 create_records_client_version [OF p0] create_records_client_version [OF p1]
    by simp
qed

text \<open>
  C6. A successful \<^verbatim>\<open>POST /bookmarks\<close> stores the empty string as the payload of the new
  record, and \<^verbatim>\<open>GET /bookmarks/:id\<close> on the returned identifier, with no write in between,
  answers with an empty payload.
\<close>

theorem create_writes_empty_payload:
  assumes "post_bookmarks w body d = (JSON 200 ((''id'', newID) # rest), d')"
  shows "Get BM newID d' = Some []
         \<and> (\<exists>t v. get_bookmarks newID d'
               = JSON 200 [(''bookmarks'', []), (''lastUpdated'', t), (''version'', v)])"
  using post_bookmarks_cases [OF assms]
  by (auto simp: Get_def get_bookmarks_def get_tx_def db_View_def)

theorem create_writes_empty_payload_witness:
  "fst (post_bookmarks example_world (Inr \<lparr>ClientVersion = ''1.0.0''\<rparr>) empty_db)
     = JSON 200 [(''id'', ''00000000000000000000000000000000''),
                 (''lastUpdated'', ''2016-07-06T12:43:16Z''), (''version'', ''1.0.0'')]
   \<and> Get BM ''00000000000000000000000000000000''
        (snd (post_bookmarks example_world (Inr \<lparr>ClientVersion = ''1.0.0''\<rparr>) empty_db)) = Some []
   \<and> get_bookmarks ''00000000000000000000000000000000''
        (snd (post_bookmarks example_world (Inr \<lparr>ClientVersion = ''1.0.0''\<rparr>) empty_db))
     = JSON 200 [(''bookmarks'', []), (''lastUpdated'', ''2016-07-06T12:43:16Z''),
                 (''version'', ''1.0.0'')]"
proof -
  have e: "fst (post_bookmarks example_world (Inr \<lparr>ClientVersion = ''1.0.0''\<rparr>) empty_db)
     = JSON 200 [(''id'', ''00000000000000000000000000000000''),
                 (''lastUpdated'', ''2016-07-06T12:43:16Z''), (''version'', ''1.0.0'')]"
    by (simp add: eval_simps)
  then have p: "post_bookmarks example_world (Inr \<lparr>ClientVersion = ''1.0.0''\<rparr>) empty_db
     = (JSON 200 ((''id'', ''00000000000000000000000000000000'') #
                 [(''lastUpdated'', ''2016-07-06T12:43:16Z''), (''version'', ''1.0.0'')]),
        snd (post_bookmarks example_world (Inr \<lparr>ClientVersion = ''1.0.0''\<rparr>) empty_db))"
    by (metis prod.collapse)
  have g: "get_bookmarks ''00000000000000000000000000000000''
        (snd (post_bookmarks example_world (Inr \<lparr>ClientVersion = ''1.0.0''\<rparr>) empty_db))
     = JSON 200 [(''bookmarks'', []), (''lastUpdated'', ''2016-07-06T12:43:16Z''),
                 (''version'', ''1.0.0'')]"
    by (simp add: eval_simps)
  show ?thesis using e g create_writes_empty_payload [OF p] by simp
qed

text \<open>
  C7. \<^verbatim>\<open>PUT /bookmarks/:id\<close> does not ask whether the identifier exists. For every identifier,
  payload and store: when the two storage writes and the commit succeed, the answer is 200
  with the new timestamp, and payload and timestamp are stored under the identifier, known
  before or not. Whatever the storage does, the answer does not depend on the store's content.
\<close>

theorem put_does_not_require_existing_id:
  assumes "put_error w BM markID (EncodedBookmarks bookmarkData) = None"
    and "put_error w TS markID (createTimestampString (now w)) = None"
    and "commit_error w = None"
  shows "(\<exists>d'. put_bookmarks w markID (Inr bookmarkData) d
                = (JSON 200 [(''lastUpdated'', createTimestampString (now w))], d')
              \<and> Get BM markID d' = Some (EncodedBookmarks bookmarkData)
              \<and> Get TS markID d' = Some (createTimestampString (now w)))
         \<and> fst (put_bookmarks w markID body d) = fst (put_bookmarks w markID body d0)"
proof
  obtain r d' where p: "put_bookmarks w markID (Inr bookmarkData) d = (r, d')"
    by (metis prod.exhaust)
  have r: "r = JSON 200 [(''lastUpdated'', createTimestampString (now w))]"
    using put_bookmarks_ok [OF assms, of d] p by simp
  with put_bookmarks_cases [OF p] p
  show "\<exists>d'. put_bookmarks w markID (Inr bookmarkData) d
                = (JSON 200 [(''lastUpdated'', createTimestampString (now w))], d')
              \<and> Get BM markID d' = Some (EncodedBookmarks bookmarkData)
              \<and> Get TS markID d' = Some (createTimestampString (now w))"
    by (auto simp: Get_def)
next
  show "fst (put_bookmarks w markID body d) = fst (put_bookmarks w markID body d0)"
    by (cases body)
       (auto simp: put_bookmarks_def db_Update_def put_tx_def Put_def handleError_def Let_def
             split: option.splits)
qed

theorem put_does_not_require_existing_id_witness:
  "Get BM ''deadbeefdeadbeefdeadbeefdeadbeef'' empty_db = None
   \<and> Get TS ''deadbeefdeadbeefdeadbeefdeadbeef'' empty_db = None
   \<and> fst (put_bookmarks example_world ''deadbeefdeadbeefdeadbeefdeadbeef''
            (Inr \<lparr>EncodedBookmarks = ''ENCBLOB''\<rparr>) empty_db)
       = JSON 200 [(''lastUpdated'', ''2016-07-06T12:43:16Z'')]
   \<and> Get BM ''deadbeefdeadbeefdeadbeefdeadbeef''
        (snd (put_bookmarks example_world ''deadbeefdeadbeefdeadbeefdeadbeef''
            (Inr \<lparr>EncodedBookmarks = ''ENCBLOB''\<rparr>) empty_db)) = Some ''ENCBLOB''
   \<and> Get TS ''deadbeefdeadbeefdeadbeefdeadbeef''
        (snd (put_bookmarks example_world ''deadbeefdeadbeefdeadbeefdeadbeef''
            (Inr \<lparr>EncodedBookmarks = ''ENCBLOB''\<rparr>) empty_db)) = Some ''2016-07-06T12:43:16Z''"
proof -
  have a: "put_error example_world BM ''deadbeefdeadbeefdeadbeefdeadbeef''
             (EncodedBookmarks \<lparr>EncodedBookmarks = ''ENCBLOB''\<rparr>) = None"
    and b: "put_error example_world TS ''deadbeefdeadbeefdeadbeefdeadbeef''
             (createTimestampString (now example_world)) = None"
    and c: "commit_error example_world = None"
    by (simp_all add: example_world_def)
  have t: "createTimestampString (now example_world) = ''2016-07-06T12:43:16Z''"
    by (simp add: example_world_def example_timestamp)
  show ?thesis
    using put_does_not_require_existing_id [OF a b c, of empty_db, THEN conjunct1] t
    by (auto simp: Get_def empty_db_def)
qed

text \<open>
  C9. The claim: after a successful put of \<open>(id, P)\<close>, get on \<open>id\<close> succeeds with payload \<open>P\<close>
  and a timestamp at least the put's. For an identifier that has no client-version entry
  this fails: the put creates payload and timestamp only, and the get asks for all three.
\<close>

theorem put_then_get_on_unknown_id_fails:
  "fst (put_bookmarks example_world ''deadbeefdeadbeefdeadbeefdeadbeef''
          (Inr \<lparr>EncodedBookmarks = ''ENCBLOB''\<rparr>) empty_db)
     = JSON 200 [(''lastUpdated'', ''2016-07-06T12:43:16Z'')]
   \<and> get_bookmarks ''deadbeefdeadbeefdeadbeefdeadbeef''
        (snd (put_bookmarks example_world ''deadbeefdeadbeefdeadbeefdeadbeef''
          (Inr \<lparr>EncodedBookmarks = ''ENCBLOB''\<rparr>) empty_db))
     = JSON 409 [(''code'', ''InvalidArgument''), (''message'', ''Invalid ID'')]"
  by (simp add: eval_simps)

text \<open>
  C9, as the code has it: for an identifier that has a client-version entry (every identifier
  issued by \<^verbatim>\<open>POST /bookmarks\<close> has one), a get right after a successful put answers with the
  payload that was put, the stored client version, and the very timestamp the put returned.
\<close>

theorem get_after_put:
  assumes "put_bookmarks w markID (Inr bookmarkData) d = (JSON 200 [(''lastUpdated'', t)], d')"
    and "Get VR markID d = Some v"
  shows "\<exists>t'. get_bookmarks markID d'
                = JSON 200 [(''bookmarks'', EncodedBookmarks bookmarkData),
                            (''lastUpdated'', t'), (''version'', v)]
              \<and> t \<le> t' \<and> t' = t"
  using put_bookmarks_cases [OF assms(1)] assms(2)
  by (auto simp: Get_def get_bookmarks_def get_tx_def db_View_def)

theorem get_after_put_witness:
  "Get VR ''00000000000000000000000000000000''
     (snd (post_bookmarks example_world (Inr \<lparr>ClientVersion = ''1.0.0''\<rparr>) empty_db)) = Some ''1.0.0''
   \<and> fst (put_bookmarks (example_world\<lparr>now := comment_instant\<lparr>Second := 17\<rparr>\<rparr>)
            ''00000000000000000000000000000000'' (Inr \<lparr>EncodedBookmarks = ''ENCBLOB''\<rparr>)
            (snd (post_bookmarks example_world (Inr \<lparr>ClientVersion = ''1.0.0''\<rparr>) empty_db)))
       = JSON 200 [(''lastUpdated'', ''2016-07-06T12:43:17Z'')]
   \<and> get_bookmarks ''00000000000000000000000000000000''
        (snd (put_bookmarks (example_world\<lparr>now := comment_instant\<lparr>Second := 17\<rparr>\<rparr>)
            ''00000000000000000000000000000000'' (Inr \<lparr>EncodedBookmarks = ''ENCBLOB''\<rparr>)
            (snd (post_bookmarks example_world (Inr \<lparr>ClientVersion = ''1.0.0''\<rparr>) empty_db))))
       = JSON 200 [(''bookmarks'', ''ENCBLOB''), (''lastUpdated'', ''2016-07-06T12:43:17Z''),
                   (''version'', ''1.0.0'')]"
proof -
  let ?d = "snd (post_bookmarks example_world (Inr \<lparr>ClientVersion = ''1.0.0''\<rparr>) empty_db)"
  let ?w = "example_world\<lparr>now := comment_instant\<lparr>Second := 17\<rparr>\<rparr>"
  have t: "createTimestampString (comment_instant\<lparr>Second := 17\<rparr>) = ''2016-07-06T12:43:17Z''"
    by (simp add: createTimestampString_def Format_RFC3339_def comment_instant_def
        appendInt_def appendZone_def itoa.simps digit_def)
  have v: "Get VR ''00000000000000000000000000000000'' ?d = Some ''1.0.0''"
    by (simp add: eval_simps)
  have e: "fst (put_bookmarks ?w ''00000000000000000000000000000000''
                 (Inr \<lparr>EncodedBookmarks = ''ENCBLOB''\<rparr>) ?d)
             = JSON 200 [(''lastUpdated'', ''2016-07-06T12:43:17Z'')]"
    by (simp add: put_bookmarks_ok example_world_def t)
  then have p: "put_bookmarks ?w ''00000000000000000000000000000000''
                 (Inr \<lparr>EncodedBookmarks = ''ENCBLOB''\<rparr>) ?d
             = (JSON 200 [(''lastUpdated'', ''2016-07-06T12:43:17Z'')],
                snd (put_bookmarks ?w ''00000000000000000000000000000000''
                 (Inr \<lparr>EncodedBookmarks = ''ENCBLOB''\<rparr>) ?d))"
    by (metis prod.collapse)
  show ?thesis using v e get_after_put [OF p v] by simp
qed

text \<open>
  C10. \<^verbatim>\<open>GET /bookmarks/:id/lastUpdated\<close> answers with the empty marker \<^verbatim>\<open>{}\<close> exactly when the
  stored timestamp, read as a string, has length zero; so an identifier whose timestamp is
  the empty string gets the answer of an identifier with no timestamp at all.
\<close>

theorem lastUpdated_empty_marker:
  "(get_lastUpdated markID d = String 200 ''{}'') = (length (string_of (Get TS markID d)) = 0)
   \<and> (Get TS markID d = Some [] \<longrightarrow> Get TS other d' = None
        \<longrightarrow> get_lastUpdated markID d = get_lastUpdated other d')"
  by (auto simp: get_lastUpdated_def db_View_def string_of_def Let_def)

theorem lastUpdated_empty_marker_witness:
  "Get TS ''0123'' (empty_db\<lparr>buckets := (buckets empty_db)(TS := [''0123'' \<mapsto> []])\<rparr>) = Some []
   \<and> Get TS ''deadbeefdeadbeefdeadbeefdeadbeef'' empty_db = None
   \<and> get_lastUpdated ''0123'' (empty_db\<lparr>buckets := (buckets empty_db)(TS := [''0123'' \<mapsto> []])\<rparr>)
       = String 200 ''{}''
   \<and> get_lastUpdated ''deadbeefdeadbeefdeadbeefdeadbeef'' empty_db = String 200 ''{}''
   \<and> get_lastUpdated ''0123''
        (empty_db\<lparr>buckets := (buckets empty_db)(TS := [''0123'' \<mapsto> ''2016-07-06T12:43:16Z''])\<rparr>)
       = JSON 200 [(''lastUpdated'', ''2016-07-06T12:43:16Z'')]"
proof -
  let ?d = "empty_db\<lparr>buckets := (buckets empty_db)(TS := [''0123'' \<mapsto> []])\<rparr>"
  have a: "Get TS ''0123'' ?d = Some []" by (simp add: Get_def)
  have b: "Get TS ''deadbeefdeadbeefdeadbeefdeadbeef'' empty_db = None"
    by (simp add: Get_def empty_db_def)
  have c: "get_lastUpdated ''deadbeefdeadbeefdeadbeefdeadbeef'' empty_db = String 200 ''{}''"
    by (simp add: eval_simps)
  have e: "get_lastUpdated ''0123''
        (empty_db\<lparr>buckets := (buckets empty_db)(TS := [''0123'' \<mapsto> ''2016-07-06T12:43:16Z''])\<rparr>)
       = JSON 200 [(''lastUpdated'', ''2016-07-06T12:43:16Z'')]"
    by (simp add: eval_simps)
  show ?thesis
    using a b c e
      lastUpdated_empty_marker [of "''0123''" ?d "''deadbeefdeadbeefdeadbeefdeadbeef''" empty_db]
    by simp
qed

section \<open>The retry loop\<close>

lemma hex_Encode_candidate:
  "length buf = 32 \<Longrightarrow>
   hex_Encode buf (uuid_bytes (NewV5 w uuid1 (Sprintf_x seqID))) = candidate w seqID uuid1"
  by (simp add: candidate_def hex_Encode_uuid_overwrites)

lemma length_candidate: "length (candidate w seqID uuid1) = 32"
  by (simp add: candidate_def length_hex_Encode_uuid)

lemma find_unique_all_collide:
  assumes "\<forall>m. n \<le> m \<and> m \<le> 8 \<longrightarrow>
             (\<exists>u. NewV4 w m = Inr u \<and> bkData (candidate w seqID u) \<noteq> None)"
    and "length buf = 32" and "n \<le> 8"
  shows "find_unique w bkData seqID buf n = Inl (Errorf ''too many UUID collisions'')"
  using assms
proof (induction k \<equiv> "8 - n" arbitrary: n buf)
  case 0
  then have n: "n = 8" by simp
  from 0 n obtain u where u: "NewV4 w n = Inr u" "bkData (candidate w seqID u) \<noteq> None"
    by blast
  show ?case
    using u "0.prems"(2) unfolding n
    by (subst find_unique.simps) (simp add: Let_def hex_Encode_candidate)
next
  case (Suc k)
  then have n: "n < 8" by simp
  from Suc.prems obtain u where u: "NewV4 w n = Inr u" "bkData (candidate w seqID u) \<noteq> None"
    by blast
  have rec: "find_unique w bkData seqID (candidate w seqID u) (n + 1)
               = Inl (Errorf ''too many UUID collisions'')"
  proof (rule Suc.hyps(1))
    show "k = 8 - (n + 1)" using Suc.hyps(2) by simp
    show "\<forall>m. n + 1 \<le> m \<and> m \<le> 8 \<longrightarrow>
             (\<exists>u. NewV4 w m = Inr u \<and> bkData (candidate w seqID u) \<noteq> None)"
      using Suc.prems(1) by auto
    show "length (candidate w seqID u) = 32" by (rule length_candidate)
    show "n + 1 \<le> 8" using n by simp
  qed
  show ?case
    using n rec
    by (subst find_unique.simps) (simp add: u Let_def hex_Encode_candidate Suc.prems(2))
qed

lemma find_unique_draws:
  assumes "\<forall>m\<le>8. f m = NewV4 w m" and "n \<le> 8"
  shows "find_unique (w\<lparr>NewV4 := f\<rparr>) bkData seqID buf n = find_unique w bkData seqID buf n"
  using assms
proof (induction k \<equiv> "8 - n" arbitrary: n buf)
  case 0
  then have n: "n = 8" by simp
  have "f 8 = NewV4 w 8" using "0.prems"(1) by simp
  then show ?case
    unfolding n
    by (subst find_unique.simps, subst (2) find_unique.simps)
       (simp add: Let_def split: sum.splits)
next
  case (Suc k)
  then have n: "n < 8" by simp
  have rec: "\<And>b. find_unique (w\<lparr>NewV4 := f\<rparr>) bkData seqID b (Suc n)
                 = find_unique w bkData seqID b (Suc n)"
  proof -
    fix b
    show "find_unique (w\<lparr>NewV4 := f\<rparr>) bkData seqID b (Suc n)
                 = find_unique w bkData seqID b (Suc n)"
      using Suc.hyps(2) Suc.prems(1) n by (intro Suc.hyps(1)) simp_all
  qed
  have fn: "f n = NewV4 w n" using Suc.prems(1) n by simp
  show ?case
    by (subst find_unique.simps, subst (2) find_unique.simps)
       (simp add: Let_def fn rec split: sum.splits)
qed

lemma Put_draws: "Put (w\<lparr>NewV4 := f\<rparr>) b key val d = Put w b key val d"
  by (simp add: Put_def)

lemma create_tx_draws:
  assumes "\<forall>m\<le>8. f m = NewV4 w m"
  shows "create_tx (w\<lparr>NewV4 := f\<rparr>) bookmarkData imprintTime d
           = create_tx w bookmarkData imprintTime d"
  unfolding create_tx_def by (simp only: Put_draws find_unique_draws [OF assms le0])

lemma post_bookmarks_draws:
  assumes "\<forall>m\<le>8. f m = NewV4 w m"
  shows "post_bookmarks (w\<lparr>NewV4 := f\<rparr>) body d = post_bookmarks w body d"
proof -
  have "\<And>bookmarkData t.
          db_Update (w\<lparr>NewV4 := f\<rparr>) (create_tx (w\<lparr>NewV4 := f\<rparr>) bookmarkData t) d
            = db_Update w (create_tx w bookmarkData t) d"
    by (simp add: db_Update_def create_tx_draws [OF assms] split: prod.splits option.splits)
  then show ?thesis
    by (cases body) (simp_all add: post_bookmarks_def)
qed

section \<open>Requests in sequence\<close>





lemma handle_keeps:
  assumes "handle w r d = (resp, d1)"
    and "issued_id resp \<noteq> Some i" and "put_target r \<noteq> Some i"
  shows "buckets d1 b i = buckets d b i"
proof (cases r)
  case (PostBookmarks body)
  then have p: "post_bookmarks w body d = (resp, d1)" using assms(1) by simp
  from post_bookmarks_cases [OF p] assms(2) show ?thesis by auto
next
  case (PutBookmarks markID body)
  then have p: "put_bookmarks w markID body d = (resp, d1)" using assms(1) by simp
  from put_bookmarks_cases [OF p] assms(3) PutBookmarks show ?thesis by auto
qed (use assms in auto)


lemma issued_ids_Cons:
  "issued_ids (resp # resps) =
     (case issued_id resp of None \<Rightarrow> issued_ids resps | Some i \<Rightarrow> i # issued_ids resps)"
  unfolding issued_ids_def by (simp add: map_filter_simps)

lemma serve_Cons:
  assumes "serve ((w, r) # rs) d = (resps, d')"
  shows "\<exists>resp d1 rest. handle w r d = (resp, d1) \<and> serve rs d1 = (rest, d')
           \<and> resps = resp # rest"
  using assms by (auto simp: Let_def split: prod.splits)


lemma put_targets_Cons:
  "put_targets ((w, r) # rs) =
     (case put_target r of None \<Rightarrow> put_targets rs | Some i \<Rightarrow> i # put_targets rs)"
  unfolding put_targets_def by (simp add: map_filter_simps)

lemma serve_untouched:
  "serve rs d = (resps, d') \<Longrightarrow> i \<notin> set (issued_ids resps) \<Longrightarrow> i \<notin> set (put_targets rs)
     \<Longrightarrow> buckets d' b i = buckets d b i"
proof (induction rs arbitrary: d resps)
  case Nil
  then show ?case by simp
next
  case (Cons a rs)
  obtain w r where a: "a = (w, r)" by (cases a)
  from Cons.prems(1) a obtain resp d1 rest where
    h: "handle w r d = (resp, d1)" and s: "serve rs d1 = (rest, d')" and rs: "resps = resp # rest"
    using serve_Cons by blast
  have n1: "issued_id resp \<noteq> Some i" and n2: "i \<notin> set (issued_ids rest)"
    using Cons.prems(2) rs by (auto simp: issued_ids_Cons split: option.splits)
  have n3: "put_target r \<noteq> Some i" and n4: "i \<notin> set (put_targets rs)"
    using Cons.prems(3) a by (auto simp: put_targets_Cons split: option.splits)
  have "buckets d' b i = buckets d1 b i" by (rule Cons.IH [OF s n2 n4])
  also have "\<dots> = buckets d b i" by (rule handle_keeps [OF h n1 n3])
  finally show ?case .
qed

lemma first_sync_db_buckets:
  "buckets first_sync_db BM = [''00000000000000000000000000000000'' \<mapsto> []]"
  "buckets first_sync_db TS = [''00000000000000000000000000000000'' \<mapsto> ''2016-07-06T12:43:16Z'']"
  "buckets first_sync_db VR = [''00000000000000000000000000000000'' \<mapsto> ''1.0.0'']"
  "sequence first_sync_db BM = 1"
  by (simp_all add: first_sync_db_def eval_simps)

lemma candidate_example:
  "candidate (stuck_world k) seqID 0 = ''00000000000000000000000000000000''"
  "candidate (stuck_world k) seqID 1 = ''00000000000000000000000000000001''"
  by (simp_all add: candidate_def stuck_world_def example_world_def hex_Encode_def
      length_uuid_bytes hex_uuid_0 hex_uuid_1)

section \<open>The claims about identifiers\<close>

text \<open>
  C3. The claim: when 8 consecutive candidates collide, the creation aborts. The loop counts
  the collisions and gives up when the count exceeds 8, so after 8 collisions it draws a
  ninth candidate: with a store holding the identifier of 32 zeros and a random source that
  yields zero eight times and then one, the creation succeeds with the ninth candidate.
\<close>

theorem eight_collisions_do_not_abort:
  "map (NewV4 (stuck_world 8)) [0, 1, 2, 3, 4, 5, 6, 7] = replicate 8 (Inr 0)
   \<and> Get BM (candidate (stuck_world 8) (sequence first_sync_db BM + 1) 0) first_sync_db = Some []
   \<and> fst (post_bookmarks (stuck_world 8) (Inr \<lparr>ClientVersion = ''1.0.0''\<rparr>) first_sync_db)
       = JSON 200 [(''id'', ''00000000000000000000000000000001''),
                   (''lastUpdated'', ''2016-07-06T12:43:16Z''), (''version'', ''1.0.0'')]"
proof -
  have a: "map (NewV4 (stuck_world 8)) [0, 1, 2, 3, 4, 5, 6, 7] = replicate 8 (Inr 0)"
    by (simp add: stuck_world_def example_world_def numeral_eq_Suc)
  have b: "Get BM (candidate (stuck_world 8) (sequence first_sync_db BM + 1) 0) first_sync_db
             = Some []"
    by (simp add: Get_def candidate_example first_sync_db_buckets)
  have c: "fst (post_bookmarks (stuck_world 8) (Inr \<lparr>ClientVersion = ''1.0.0''\<rparr>) first_sync_db)
       = JSON 200 [(''id'', ''00000000000000000000000000000001''),
                   (''lastUpdated'', ''2016-07-06T12:43:16Z''), (''version'', ''1.0.0'')]"
    by (simp add: stuck_world_def first_sync_db_def eval_simps)
  from a b c show ?thesis by blast
qed

text \<open>
  C3, as the code has it: the retry loop is bounded. When the first 9 candidates all collide
  with stored identifiers, \<^verbatim>\<open>POST /bookmarks\<close> answers 409 with code \<^verbatim>\<open>InternalError\<close> (not the
  \<^verbatim>\<open>MissingParameter\<close> of a bad request body) and message \<^verbatim>\<open>too many UUID collisions\<close>, and
  the store is unchanged. The handler never draws more than 9 UUIDs: its result is the same
  in every world that agrees on the first 9 draws. The loop is a total function (its
  termination is proved with the measure 9 minus the counter).
\<close>

theorem create_gives_up_after_nine_collisions:
  assumes "newSyncsAllowed w"
    and "\<forall>n\<le>8. \<exists>u. NewV4 w n = Inr u
                    \<and> Get BM (candidate w (sequence d BM + 1) u) d \<noteq> None"
  shows "post_bookmarks w (Inr bookmarkData) d
           = (JSON 409 [(''code'', ''InternalError''),
                        (''message'', ''too many UUID collisions'')], d)
         \<and> ((\<forall>n\<le>8. f n = NewV4 w' n)
              \<longrightarrow> post_bookmarks (w'\<lparr>NewV4 := f\<rparr>) body d' = post_bookmarks w' body d')"
proof
  have "find_unique w (buckets d BM) (sequence d BM + 1) (replicate 32 (CHR 0x00)) 0
          = Inl (Errorf ''too many UUID collisions'')"
    using assms(2) by (intro find_unique_all_collide) (auto simp: Get_def)
  then show "post_bookmarks w (Inr bookmarkData) d
           = (JSON 409 [(''code'', ''InternalError''),
                        (''message'', ''too many UUID collisions'')], d)"
    using assms(1)
    by (simp add: post_bookmarks_def db_Update_def create_tx_def NextSequence_def
        handleError_def Let_def)
next
  show "(\<forall>n\<le>8. f n = NewV4 w' n)
          \<longrightarrow> post_bookmarks (w'\<lparr>NewV4 := f\<rparr>) body d' = post_bookmarks w' body d'"
    using post_bookmarks_draws by blast
qed

theorem create_gives_up_after_nine_collisions_witness:
  "newSyncsAllowed (stuck_world 9)
   \<and> map (NewV4 (stuck_world 9)) [0, 1, 2, 3, 4, 5, 6, 7, 8] = replicate 9 (Inr 0)
   \<and> Get BM (candidate (stuck_world 9) (sequence first_sync_db BM + 1) 0) first_sync_db = Some []
   \<and> post_bookmarks (stuck_world 9) (Inr \<lparr>ClientVersion = ''1.0.0''\<rparr>) first_sync_db
       = (JSON 409 [(''code'', ''InternalError''),
                    (''message'', ''too many UUID collisions'')], first_sync_db)
   \<and> post_bookmarks ((stuck_world 9)\<lparr>NewV4 := (\<lambda>n. Inr 0)\<rparr>)
         (Inr \<lparr>ClientVersion = ''1.0.0''\<rparr>) first_sync_db
       = post_bookmarks (stuck_world 9) (Inr \<lparr>ClientVersion = ''1.0.0''\<rparr>) first_sync_db"
proof -
  have a: "newSyncsAllowed (stuck_world 9)"
    by (simp add: stuck_world_def example_world_def)
  have b: "map (NewV4 (stuck_world 9)) [0, 1, 2, 3, 4, 5, 6, 7, 8] = replicate 9 (Inr 0)"
    by (simp add: stuck_world_def example_world_def numeral_eq_Suc)
  have c: "Get BM (candidate (stuck_world 9) (sequence first_sync_db BM + 1) 0) first_sync_db
             = Some []"
    by (simp add: Get_def candidate_example first_sync_db_buckets)
  have h: "\<forall>n\<le>8. \<exists>u. NewV4 (stuck_world 9) n = Inr u
             \<and> Get BM (candidate (stuck_world 9) (sequence first_sync_db BM + 1) u)
                  first_sync_db \<noteq> None"
    using c by (auto simp: stuck_world_def)
  have g: "\<forall>n\<le>8. (\<lambda>n. Inr 0) n = NewV4 (stuck_world 9) n"
    by (simp add: stuck_world_def)
  from create_gives_up_after_nine_collisions [OF a h,
      of "\<lparr>ClientVersion = ''1.0.0''\<rparr>" "\<lambda>n. Inr 0" "stuck_world 9"
         "Inr \<lparr>ClientVersion = ''1.0.0''\<rparr>" first_sync_db] g
  show ?thesis using a b c by blast
qed



lemma get_bookmarks_partial:
  assumes "Get BM j d0 = None \<or> Get TS j d0 = None \<or> Get VR j d0 = None"
  shows "get_bookmarks j d0 = JSON 409 [(''code'', ''InvalidArgument''), (''message'', ''Invalid ID'')]"
  using assms
  by (auto simp: get_bookmarks_def get_tx_def db_View_def handleError_def Let_def
      split: option.splits)

text \<open>
  C8. For an identifier that, in a run from the empty store, no creation handed out and no
  put wrote, \<^verbatim>\<open>GET /bookmarks/:id\<close> fails with the not-found error (\<^verbatim>\<open>data not found for key\<close>,
  answered as 409 \<^verbatim>\<open>Invalid ID\<close>), while \<^verbatim>\<open>GET /bookmarks/:id/lastUpdated\<close> answers 200 with the
  empty marker \<^verbatim>\<open>{}\<close>. In any store, \<^verbatim>\<open>GET /bookmarks/:id\<close> fails in the same way as soon as
  one of payload, timestamp and client version is absent.
\<close>

theorem get_on_unknown_identifier:
  assumes "serve rs empty_db = (resps, d)"
    and "i \<notin> set (issued_ids resps)" and "i \<notin> set (put_targets rs)"
  shows "get_tx i d = Inl (Errorf ''data not found for key'')
         \<and> get_bookmarks i d
             = JSON 409 [(''code'', ''InvalidArgument''), (''message'', ''Invalid ID'')]
         \<and> get_lastUpdated i d = String 200 ''{}''
         \<and> (Get BM j d0 = None \<or> Get TS j d0 = None \<or> Get VR j d0 = None
              \<longrightarrow> get_bookmarks j d0
                    = JSON 409 [(''code'', ''InvalidArgument''), (''message'', ''Invalid ID'')])"
proof -
  have absent: "buckets d b i = None" for b
    using serve_untouched [OF assms, of b] by (simp add: empty_db_def)
  have "get_tx i d = Inl (Errorf ''data not found for key'')"
    by (simp add: get_tx_def Get_def absent)
  moreover have "get_bookmarks i d
             = JSON 409 [(''code'', ''InvalidArgument''), (''message'', ''Invalid ID'')]"
    by (rule get_bookmarks_partial) (simp add: Get_def absent)
  moreover have "get_lastUpdated i d = String 200 ''{}''"
    by (simp add: get_lastUpdated_def db_View_def Get_def string_of_def absent)
  ultimately show ?thesis using get_bookmarks_partial by blast
qed

theorem get_on_unknown_identifier_witness:
  "fst (serve [(example_world, PostBookmarks (Inr \<lparr>ClientVersion = ''1.0.0''\<rparr>)),
               (example_world, PutBookmarks ''0123'' (Inr \<lparr>EncodedBookmarks = ''ENCBLOB''\<rparr>))]
          empty_db)
     = [JSON 200 [(''id'', ''00000000000000000000000000000000''),
                  (''lastUpdated'', ''2016-07-06T12:43:16Z''), (''version'', ''1.0.0'')],
        JSON 200 [(''lastUpdated'', ''2016-07-06T12:43:16Z'')]]
   \<and> get_bookmarks ''deadbeefdeadbeefdeadbeefdeadbeef''
        (snd (serve [(example_world, PostBookmarks (Inr \<lparr>ClientVersion = ''1.0.0''\<rparr>)),
               (example_world, PutBookmarks ''0123'' (Inr \<lparr>EncodedBookmarks = ''ENCBLOB''\<rparr>))]
          empty_db))
       = JSON 409 [(''code'', ''InvalidArgument''), (''message'', ''Invalid ID'')]
   \<and> get_lastUpdated ''deadbeefdeadbeefdeadbeefdeadbeef''
        (snd (serve [(example_world, PostBookmarks (Inr \<lparr>ClientVersion = ''1.0.0''\<rparr>)),
               (example_world, PutBookmarks ''0123'' (Inr \<lparr>EncodedBookmarks = ''ENCBLOB''\<rparr>))]
          empty_db))
       = String 200 ''{}''
   \<and> Get VR ''0123''
        (snd (serve [(example_world, PostBookmarks (Inr \<lparr>ClientVersion = ''1.0.0''\<rparr>)),
               (example_world, PutBookmarks ''0123'' (Inr \<lparr>EncodedBookmarks = ''ENCBLOB''\<rparr>))]
          empty_db)) = None
   \<and> Get BM ''0123''
        (snd (serve [(example_world, PostBookmarks (Inr \<lparr>ClientVersion = ''1.0.0''\<rparr>)),
               (example_world, PutBookmarks ''0123'' (Inr \<lparr>EncodedBookmarks = ''ENCBLOB''\<rparr>))]
          empty_db)) = Some ''ENCBLOB''
   \<and> get_bookmarks ''0123''
        (snd (serve [(example_world, PostBookmarks (Inr \<lparr>ClientVersion = ''1.0.0''\<rparr>)),
               (example_world, PutBookmarks ''0123'' (Inr \<lparr>EncodedBookmarks = ''ENCBLOB''\<rparr>))]
          empty_db))
       = JSON 409 [(''code'', ''InvalidArgument''), (''message'', ''Invalid ID'')]"
proof -
  let ?rs = "[(example_world, PostBookmarks (Inr \<lparr>ClientVersion = ''1.0.0''\<rparr>)),
               (example_world, PutBookmarks ''0123'' (Inr \<lparr>EncodedBookmarks = ''ENCBLOB''\<rparr>))]"
  let ?resps = "[JSON 200 [(''id'', ''00000000000000000000000000000000''),
                  (''lastUpdated'', ''2016-07-06T12:43:16Z''), (''version'', ''1.0.0'')],
        JSON 200 [(''lastUpdated'', ''2016-07-06T12:43:16Z'')]]"
  have e: "fst (serve ?rs empty_db) = ?resps"
    by (simp add: eval_simps split_def)
  then have s: "serve ?rs empty_db = (?resps, snd (serve ?rs empty_db))"
    by (metis prod.collapse)
  have a: "''deadbeefdeadbeefdeadbeefdeadbeef'' \<notin> set (issued_ids ?resps)"
    by (simp add: issued_ids_def map_filter_simps)
  have b: "''deadbeefdeadbeefdeadbeefdeadbeef'' \<notin> set (put_targets ?rs)"
    by (simp add: put_targets_def map_filter_simps)
  have v: "Get VR ''0123'' (snd (serve ?rs empty_db)) = None"
    by (simp add: eval_simps split_def)
  have m: "Get BM ''0123'' (snd (serve ?rs empty_db)) = Some ''ENCBLOB''"
    by (simp add: eval_simps split_def)
  from get_on_unknown_identifier [OF s a b, of "''0123''" "snd (serve ?rs empty_db)"] v
  show ?thesis using e m by simp
qed

end
